theory Spec2Isabelle
  imports Complex_Main
begin

section \<open>Python values used by the harvesters\<close>

text \<open>
  The functions keep the names they have in the sources, without the leading
  underscore of the private ones (\<open>_get_license\<close> is \<open>get_license\<close>).

  A Python \<open>str\<close> is modelled as a \<open>string\<close> whose characters are the code points
  below 256. On these code points \<open>str.lower\<close> maps \<open>A..Z\<close> and the upper-case
  letters \<open>U+00C0..U+00DE\<close> (without the multiplication sign \<open>U+00D7\<close>) 32 places up and
  leaves everything else alone; \<open>str.isspace\<close>, which \<open>str.strip()\<close> and the regular
  expression class \<open>\s\<close> use, holds for \<open>U+0009..U+000D\<close>, \<open>U+001C..U+0020\<close>,
  \<open>U+0085\<close> and \<open>U+00A0\<close>.
\<close>

definition lower_char :: "char \<Rightarrow> char" where
  "lower_char c =
     (let n = (of_char c :: nat)
      in if (65 \<le> n \<and> n \<le> 90) \<or> (192 \<le> n \<and> n \<le> 222 \<and> n \<noteq> 215)
         then char_of (n + 32) else c)"

definition lower :: "string \<Rightarrow> string" where
  "lower s = map lower_char s"

definition isspace :: "char \<Rightarrow> bool" where
  "isspace c =
     (let n = (of_char c :: nat)
      in (9 \<le> n \<and> n \<le> 13) \<or> (28 \<le> n \<and> n \<le> 32) \<or> n = 133 \<or> n = 160)"

definition strip :: "string \<Rightarrow> string" where
  "strip s = rev (dropWhile isspace (rev (dropWhile isspace s)))"

text \<open>The exceptions the modelled functions can raise.\<close>

datatype error = KeyError | AttributeError | TypeError | ValueError | IndexError | OverflowError

text \<open>
  The \<open>attributes\<close> object of a TeSS material is decoded JSON: a dictionary from keys to
  JSON values. Numbers are kept only as integers, which is all the functions below can
  tell apart (they reject every number alike).
\<close>

datatype json =
    JNull
  | JBool bool
  | JNum int
  | JStr string
  | JList "json list"
  | JDict "(string \<times> json) list"

type_synonym attributes = "(string \<times> json) list"

text \<open>\<open>for x in v\<close>: a list yields its elements, a string its characters, a dictionary its
  keys; nothing else is iterable.\<close>

fun py_iter :: "json \<Rightarrow> error + json list" where
  "py_iter (JList xs) = Inr xs"
| "py_iter (JStr s) = Inr (map (\<lambda>c. JStr [c]) s)"
| "py_iter (JDict kvs) = Inr (map (\<lambda>kv. JStr (fst kv)) kvs)"
| "py_iter _ = Inl TypeError"

text \<open>\<open>v.lower().strip()\<close>: only a string has the method \<open>lower\<close>.\<close>

fun lower_strip :: "json \<Rightarrow> error + string" where
  "lower_strip (JStr s) = Inr (strip (lower s))"
| "lower_strip _ = Inl AttributeError"

section \<open>Controlled identifiers\<close>

text \<open>
  The identifiers are \<open>URIRef\<close>s drawn from five namespaces (\<open>SDO\<close> of rdflib; \<open>BIBO\<close>,
  \<open>HCRT\<close>, \<open>MODALIA\<close> and \<open>SPDX_LICENSE\<close> of \<open>dalia_dif.namespace\<close>). A namespace applied
  to a local name is the namespace's prefix followed by the name; the model keeps the
  namespace and the local name (the identifier's label) apart. Every such \<open>URIRef\<close> is a
  non-empty string, hence true in a condition.
\<close>

datatype uriref =
    SDO string
  | MODALIA string
  | HCRT string
  | BIBO string
  | SPDX_LICENSE string

fun label :: "uriref \<Rightarrow> string" where
  "label (SDO n) = n"
| "label (MODALIA n) = n"
| "label (HCRT n) = n"
| "label (BIBO n) = n"
| "label (SPDX_LICENSE n) = n"

section \<open>sources/tess.py: the static tables\<close>

definition RESOURCE_TYPE_MAP :: "(string \<times> uriref option) list" where
  "RESOURCE_TYPE_MAP =
   [(''video'', Some (SDO ''VideoObject'')),
    (''series of videos'', Some (SDO ''VideoObject'')),
    (''youtube video'', Some (SDO ''VideoObject'')),
    (''computer software'', Some (SDO ''SoftwareSourceCode'')),
    (''coding'', Some (SDO ''SoftwareSourceCode'')),
    (''scripts'', Some (SDO ''SoftwareSourceCode'')),
    (''programming'', Some (SDO ''SoftwareSourceCode'')),
    (''poster'', Some (SDO ''Poster'')),
    (''workshop'', Some (MODALIA ''Workshop'')),
    (''podcast'', Some (SDO ''PodcastEpisode'')),
    (''slidedeck'', Some (HCRT ''slide'')),
    (''slideshow'', Some (HCRT ''slide'')),
    (''slides'', Some (HCRT ''slide'')),
    (''slide deck / presentation'', Some (HCRT ''slide'')),
    (''slides / presentation'', Some (HCRT ''slide'')),
    (''slideck/ presentation'', Some (HCRT ''slide'')),
    (''presentation'', Some (HCRT ''slide'')),
    (''jupyter notebooks'', Some (MODALIA ''CodeNotebook'')),
    (''jupyter notebook'', Some (MODALIA ''CodeNotebook'')),
    (''blog post'', None),
    (''training materials'', None),
    (''examples'', None),
    (''documentation'', None),
    (''bioinformatics'', None),
    (''hands-on tutorial'', None),
    (''learning pathway'', None),
    (''tutorials'', None),
    (''handbook'', None),
    (''case studies'', None),
    (''implementation guidelines'', None),
    (''additional reading'', None),
    (''didactic activities'', None),
    (''mock data'', None),
    (''how-to guide'', None),
    (''online course'', None),
    (''online material'', None),
    (''education'', None),
    (''open educational resource'', None),
    (''tool'', None),
    (''toolkit'', None),
    (''e-learning + workshop'', None),
    (''pdf'', None),
    (''recording'', None),
    (''r shiny application'', None),
    (''free online course'', None),
    (''carpentries style curriculum'', None),
    (''training materials with mock data'', None),
    (''online modules'', None),
    (''hackathon'', None),
    (''vignette'', None),
    (''api reference'', None),
    (''educational materials'', None),
    (''exercise'', None),
    (''handout'', None),
    (''workflow'', None),
    (''installation instructions'', None),
    (''manual'', None),
    (''talk'', None),
    (''knowledgebase'', None),
    (''book'', Some (BIBO ''book'')),
    (''notes'', None),
    (''computational biology'', None),
    (''computer science'', None),
    (''data science'', None),
    (''transcriptomics'', None),
    (''machine learning'', None),
    (''life sciences literature database'', None),
    (''life science literature database'', None),
    (''viralzone'', None)]"

definition LICENSES :: "(string \<times> uriref) list" where
  "LICENSES =
   [(lower ''CC-BY-1.0'', SPDX_LICENSE ''CC-BY-1.0''),
    (lower ''CC-BY-2.0'', SPDX_LICENSE ''CC-BY-2.0''),
    (lower ''CC-BY-3.0'', SPDX_LICENSE ''CC-BY-3.0''),
    (lower ''CC-BY-4.0'', SPDX_LICENSE ''CC-BY-4.0''),
    (lower ''CC-BY-SA-4.0'', SPDX_LICENSE ''CC-BY-SA-4.0''),
    (lower ''CC-BY-ND-4.0'', SPDX_LICENSE ''CC-BY-ND-4.0''),
    (lower ''CC-BY-ND-2.0'', SPDX_LICENSE ''CC-BY-ND-2.0''),
    (lower ''CC-BY-NC-4.0'', SPDX_LICENSE ''CC-BY-NC-4.0''),
    (lower ''CC-BY-NC-2.0'', SPDX_LICENSE ''CC-BY-NC-2.0''),
    (lower ''CC-BY-NC-SA-3.0'', SPDX_LICENSE ''CC-BY-NC-SA-3.0''),
    (lower ''CC-BY-NC-SA-4.0'', SPDX_LICENSE ''CC-BY-NC-SA-4.0''),
    (lower ''CC-BY-NC-ND-3.0'', SPDX_LICENSE ''CC-BY-NC-ND-3.0''),
    (lower ''CC-BY-NC-ND-4.0'', SPDX_LICENSE ''CC-BY-NC-ND-4.0''),
    (lower ''CC0-1.0'', SPDX_LICENSE ''CC0-1.0''),
    (lower ''MIT'', SPDX_LICENSE ''MIT''),
    (lower ''gpl-2.0'', SPDX_LICENSE ''GPL-2.0''),
    (lower ''gpl-3.0-only'', SPDX_LICENSE ''GPL-3.0-only''),
    (lower ''gpl-3.0'', SPDX_LICENSE ''GPL-3.0-or-later''),
    (lower ''agpl-3.0-only'', SPDX_LICENSE ''AGPL-3.0-only''),
    (lower ''unlicense'', SPDX_LICENSE ''Unlicense''),
    (lower ''Apache-2.0'', SPDX_LICENSE ''Apache-2.0''),
    (lower ''BSD-3-Clause'', SPDX_LICENSE ''BSD-3-Clause''),
    (lower ''Artistic-2.0'', SPDX_LICENSE ''Artistic-2.0''),
    (lower ''AFL-3.0'', SPDX_LICENSE ''AFL-3.0''),
    (lower ''ODC-By-1.0'', SPDX_LICENSE ''ODC-By-1.0''),
    (lower ''WTFPL'', SPDX_LICENSE ''WTFPL'')]"

section \<open>sources/tess.py: module state\<close>

text \<open>
  The module keeps two \<open>Counter\<close>s and writes diagnostics with \<open>tqdm.write\<close>. A
  \<open>Counter\<close> is a dictionary from keys to integers: reading a missing key gives 0
  without storing it, \<open>key in counter\<close> asks whether the key is stored. A written line
  is its text together with the colour \<open>click.style\<close> gave it, if any.
\<close>

type_synonym counter = "string \<rightharpoonup> int"

definition counter_get :: "counter \<Rightarrow> string \<Rightarrow> int" where
  "counter_get c k = (case c k of None \<Rightarrow> 0 | Some n \<Rightarrow> n)"

definition counter_incr :: "counter \<Rightarrow> string \<Rightarrow> counter" where
  "counter_incr c k = c(k \<mapsto> counter_get c k + 1)"

datatype line = Plain string | Red string

record state =
  unknown_resource_type :: counter
  license_counter :: counter
  written :: "line list"

definition initial_state :: state where
  "initial_state = \<lparr>unknown_resource_type = Map.empty, license_counter = Map.empty, written = []\<rparr>"

definition tqdm_write :: "line \<Rightarrow> state \<Rightarrow> state" where
  "tqdm_write l st = st\<lparr>written := written st @ [l]\<rparr>"

section \<open>sources/tess.py: the vocabulary mappers\<close>

text \<open>\<open>d.get(k)\<close> on a table whose values may be \<open>None\<close>: a missing key and a key
  stored with \<open>None\<close> both give \<open>None\<close>.\<close>

definition dict_get :: "(string \<times> 'v option) list \<Rightarrow> string \<Rightarrow> 'v option" where
  "dict_get d k = (case map_of d k of None \<Rightarrow> None | Some v \<Rightarrow> v)"

text \<open>
  The unknown path of \<open>_get_resource_types\<close> (the \<open>else\<close> branch of its loop): the
  line is written when the counter reads 0 for the label, and the label is counted.
\<close>

definition count_unknown_resource_type :: "string \<Rightarrow> state \<Rightarrow> state" where
  "count_unknown_resource_type resource_type st =
     (let st1 = (if counter_get (unknown_resource_type st) resource_type = 0
                 then tqdm_write (Red ([CHR 0x22] @ resource_type @ [CHR 0x22] @ '': None,'')) st
                 else st)
      in st1\<lparr>unknown_resource_type := counter_incr (unknown_resource_type st1) resource_type\<rparr>)"

text \<open>
  The body of the loop of \<open>_get_resource_types\<close> for one element of the attribute, and
  the loop. An exception leaves the state as it is at that moment, so every function
  returns the state beside its result.
\<close>

definition resource_type_body ::
    "json \<Rightarrow> uriref list \<times> state \<Rightarrow> (error + uriref list) \<times> state" where
  "resource_type_body x acc =
     (case acc of (rv, st) \<Rightarrow>
      (case lower_strip x of
         Inl e \<Rightarrow> (Inl e, st)
       | Inr resource_type \<Rightarrow>
           (case dict_get RESOURCE_TYPE_MAP resource_type of
              Some nn \<Rightarrow> (Inr (rv @ [nn]), st)
            | None \<Rightarrow> (Inr rv, count_unknown_resource_type resource_type st))))"

fun resource_type_loop ::
    "json list \<Rightarrow> uriref list \<times> state \<Rightarrow> (error + uriref list) \<times> state" where
  "resource_type_loop [] (rv, st) = (Inr rv, st)"
| "resource_type_loop (x # xs) (rv, st) =
     (case resource_type_body x (rv, st) of
        (Inl e, st') \<Rightarrow> (Inl e, st')
      | (Inr rv', st') \<Rightarrow> resource_type_loop xs (rv', st'))"

definition get_resource_types :: "attributes \<Rightarrow> state \<Rightarrow> (error + uriref list) \<times> state" where
  "get_resource_types attributes st =
     (case py_iter (case map_of attributes ''resource-type'' of
                      None \<Rightarrow> JList [] | Some v \<Rightarrow> v) of
        Inl e \<Rightarrow> (Inl e, st)
      | Inr xs \<Rightarrow> resource_type_loop xs ([], st))"

text \<open>
  The unknown path of \<open>_get_license\<close>: the line is written when the text is not a key
  of the counter, and the text is counted.
\<close>

definition count_unknown_license :: "string \<Rightarrow> state \<Rightarrow> state" where
  "count_unknown_license license_text st =
     (let st1 = (if license_text \<notin> dom (license_counter st)
                 then tqdm_write (Plain (''Missing license for '' @ license_text)) st
                 else st)
      in st1\<lparr>license_counter := counter_incr (license_counter st1) license_text\<rparr>)"

text \<open>
  \<open>_get_license\<close> returns a \<open>URIRef\<close>, a plain string or \<open>None\<close>. \<open>license_text\<close> is
  kept as an optional string so that the test \<open>license_text is None\<close> of the source has
  its place in the model.
\<close>

datatype license = Identifier uriref | Text string

definition get_license :: "attributes \<Rightarrow> state \<Rightarrow> (error + license option) \<times> state" where
  "get_license attributes st =
     (case map_of attributes ''licence'' of
        None \<Rightarrow> (Inl KeyError, st)
      | Some v \<Rightarrow>
         (case lower_strip v of
            Inl e \<Rightarrow> (Inl e, st)
          | Inr s \<Rightarrow>
             (let license_text = Some s
              in if license_text = None \<or> license_text = Some ''notspecified''
                 then (Inr None, st)
                 else (case map_of LICENSES s of
                         Some u \<Rightarrow> (Inr (Some (Identifier u)), st)
                       | None \<Rightarrow> (Inr (Some (Text s)), count_unknown_license s st)))))"

section \<open>Runs of the two mappers\<close>

text \<open>
  The counters and the output live as long as the process, so what is reported once
  is a property of a sequence of calls from the initial state. A call hands one
  material's licence, or its list of resource types, to the mapper; the state is
  threaded through.
\<close>

datatype call = Licence string | ResourceTypes "string list"

fun perform :: "state \<Rightarrow> call \<Rightarrow> state" where
  "perform st (Licence s) = snd (get_license [(''licence'', JStr s)] st)"
| "perform st (ResourceTypes ls) =
     snd (get_resource_types [(''resource-type'', JList (map JStr ls))] st)"

definition run :: "call list \<Rightarrow> state" where
  "run calls = foldl perform initial_state calls"

text \<open>
  The unknown values that occur in a call, in order: a lowered, trimmed resource type
  the table gives no identifier for (a label absent from the table or, the mapper
  taking the same path for both, one stored with \<open>None\<close>), and a lowered, trimmed
  licence that is neither \<open>notspecified\<close> nor a key of the table. \<open>diagnostic\<close> is the
  line reporting a value, \<open>first_occurrences\<close> keeps of every value its first
  occurrence.
\<close>

datatype unknown_value = UnknownType string | UnknownLicense string

fun unknowns_of :: "call \<Rightarrow> unknown_value list" where
  "unknowns_of (Licence s) =
     (if strip (lower s) = ''notspecified'' \<or> strip (lower s) \<in> fst ` set LICENSES then []
      else [UnknownLicense (strip (lower s))])"
| "unknowns_of (ResourceTypes ls) =
     map UnknownType
       (filter (\<lambda>t. dict_get RESOURCE_TYPE_MAP t = None) (map (\<lambda>l. strip (lower l)) ls))"

definition unknowns :: "call list \<Rightarrow> unknown_value list" where
  "unknowns calls = concat (map unknowns_of calls)"

fun diagnostic :: "unknown_value \<Rightarrow> line" where
  "diagnostic (UnknownType t) = Red ([CHR 0x22] @ t @ [CHR 0x22] @ '': None,'')"
| "diagnostic (UnknownLicense t) = Plain (''Missing license for '' @ t)"

definition first_occurrences :: "'a list \<Rightarrow> 'a list" where
  "first_occurrences xs = rev (remdups (rev xs))"

text \<open>One occurrence of an unknown value, as the mapper concerned handles it.\<close>

fun record_unknown :: "state \<Rightarrow> unknown_value \<Rightarrow> state" where
  "record_unknown st (UnknownType t) = count_unknown_resource_type t st"
| "record_unknown st (UnknownLicense t) = count_unknown_license t st"

section \<open>Python floats\<close>

text \<open>
  A Python \<open>float\<close> is an IEEE 754 double: a rational that 53 significant bits
  represent, an infinity or a NaN (the sign of zero is dropped: nothing below reads
  it). \<open>to_double\<close> rounds a rational to the nearest double, ties to even, with
  gradual underflow below \<open>2 ^ -1022\<close> and overflow to infinity from \<open>2 ^ 1024\<close>.
\<close>

datatype pyfloat = Finite rat | PosInf | NegInf | NaN

function bit_length :: "int \<Rightarrow> int" where
  "bit_length n = (if n \<le> 0 then 0 else 1 + bit_length (n div 2))"
  by pat_completeness auto
termination
  by (relation "measure nat") auto

definition floor_log2 :: "rat \<Rightarrow> int" where
  \<comment> \<open>for \<open>0 < q\<close>, the \<open>e\<close> with \<open>2 ^ e \<le> q < 2 ^ (e + 1)\<close>\<close>
  "floor_log2 q =
     (case quotient_of q of (n, d) \<Rightarrow>
        (let e0 = bit_length n - bit_length d
         in if q < 2 powi e0 then e0 - 1 else e0))"

definition round_half_even :: "rat \<Rightarrow> int" where
  "round_half_even q =
     (let f = \<lfloor>q\<rfloor>; d = q - of_int f
      in if d < 1 / 2 then f else if 1 / 2 < d then f + 1 else if even f then f else f + 1)"

definition to_double :: "rat \<Rightarrow> pyfloat" where
  "to_double q =
     (if q = 0 then Finite 0
      else (let a = \<bar>q\<bar>;
                e = max (floor_log2 a) (- 1022);
                u = 2 powi (e - 52);
                r = of_int (round_half_even (a / u)) * u
            in if 2 ^ 1024 \<le> r then (if q < 0 then NegInf else PosInf)
               else Finite (if q < 0 then - r else r)))"

fun float_sign :: "pyfloat \<Rightarrow> int" where
  "float_sign (Finite q) = (if q < 0 then - 1 else if q = 0 then 0 else 1)"
| "float_sign PosInf = 1"
| "float_sign NegInf = - 1"
| "float_sign NaN = 0"

fun float_mul :: "pyfloat \<Rightarrow> pyfloat \<Rightarrow> pyfloat" where
  "float_mul NaN _ = NaN"
| "float_mul _ NaN = NaN"
| "float_mul (Finite a) (Finite b) = to_double (a * b)"
| "float_mul x y =
     (let s = float_sign x * float_sign y
      in if s = 0 then NaN else if 0 < s then PosInf else NegInf)"

text \<open>\<open>int(f)\<close> cuts the fraction off (towards zero); \<open>round(f)\<close> goes to the nearest
  integer, ties to even. Neither accepts an infinity or a NaN.\<close>

fun py_int :: "pyfloat \<Rightarrow> error + int" where
  "py_int (Finite q) = Inr (if 0 \<le> q then \<lfloor>q\<rfloor> else \<lceil>q\<rceil>)"
| "py_int NaN = Inl ValueError"
| "py_int _ = Inl OverflowError"

fun py_round :: "pyfloat \<Rightarrow> error + int" where
  "py_round (Finite q) = Inr (round_half_even q)"
| "py_round NaN = Inl ValueError"
| "py_round _ = Inl OverflowError"

text \<open>
  \<open>float(s)\<close> on a string: white space around the number is dropped (of the
  characters below 128 only \<open>U+0009..U+000D\<close> and the blank), single underscores may
  stand between digits, and what remains is an optional sign followed by \<open>inf\<close>,
  \<open>infinity\<close> or \<open>nan\<close> in any case, or by a decimal number with an optional exponent.
  Everything else is a \<open>ValueError\<close>.
\<close>

definition float_space :: "char \<Rightarrow> bool" where
  "float_space c =
     (let n = (of_char c :: nat) in (9 \<le> n \<and> n \<le> 13) \<or> n = 32 \<or> n = 133 \<or> n = 160)"

definition is_digit :: "char \<Rightarrow> bool" where
  "is_digit c = (let n = (of_char c :: nat) in 48 \<le> n \<and> n \<le> 57)"

definition digits_value :: "string \<Rightarrow> int" where
  "digits_value ds = foldl (\<lambda>a c. 10 * a + (of_char c - 48)) 0 ds"

fun drop_underscores :: "char \<Rightarrow> string \<Rightarrow> string option" where
  "drop_underscores prev [] = (if prev = CHR ''_'' then None else Some [])"
| "drop_underscores prev (c # cs) =
     (if c = CHR ''_''
      then (if is_digit prev then drop_underscores c cs else None)
      else if prev = CHR ''_'' \<and> \<not> is_digit c then None
      else map_option ((#) c) (drop_underscores c cs))"

definition split_sign :: "string \<Rightarrow> bool \<times> string" where
  "split_sign s =
     (case s of
        [] \<Rightarrow> (False, [])
      | c # t \<Rightarrow> if c = CHR ''-'' then (True, t) else if c = CHR ''+'' then (False, t)
                 else (False, s))"

definition parse_decimal :: "string \<Rightarrow> rat option" where
  "parse_decimal s =
     (let ip = takeWhile is_digit s;
          r1 = dropWhile is_digit s;
          fp = (case r1 of [] \<Rightarrow> [] | c # t \<Rightarrow> if c = CHR ''.'' then takeWhile is_digit t else []);
          r2 = (case r1 of [] \<Rightarrow> [] | c # t \<Rightarrow> if c = CHR ''.'' then dropWhile is_digit t else r1);
          m = of_int (digits_value (ip @ fp)) / 10 ^ length fp
      in if ip = [] \<and> fp = [] then None
         else (case r2 of
                 [] \<Rightarrow> Some m
               | c # t \<Rightarrow>
                   if c = CHR ''e'' \<or> c = CHR ''E''
                   then (case split_sign t of (neg, ds) \<Rightarrow>
                           if ds \<noteq> [] \<and> list_all is_digit ds
                           then Some (m * 10 powi (if neg then - digits_value ds else digits_value ds))
                           else None)
                   else None))"

definition float_of_str :: "string \<Rightarrow> error + pyfloat" where
  "float_of_str s =
     (case drop_underscores (CHR 0x00)
             (rev (dropWhile float_space (rev (dropWhile float_space s)))) of
        None \<Rightarrow> Inl ValueError
      | Some t \<Rightarrow>
         (case split_sign t of (neg, body) \<Rightarrow>
            if lower body = ''inf'' \<or> lower body = ''infinity''
            then Inr (if neg then NegInf else PosInf)
            else if lower body = ''nan'' then Inr NaN
            else (case parse_decimal body of
                    None \<Rightarrow> Inl ValueError
                  | Some q \<Rightarrow> Inr (to_double (if neg then - q else q)))))"

section \<open>sources/dalia.py\<close>

subsection \<open>The relation-marker pattern\<close>

text \<open>
  The regular expressions of the fragment \<open>RE\<close> is written in, with the matcher of a
  backtracking engine: the matches of an expression from a position come in the order
  the engine tries them, and the first complete one is the match. A position is the
  number of characters consumed, the characters left, and the groups captured so far.
  \<open>.\<close> is any character but the line feed, \<open>Many\<close> is the greedy star of a character
  class (longest first), \<open>^\<close> holds at the start of the string and \<open>$\<close> at its end or
  before a line feed that ends it.
\<close>

datatype char_class = AnyButNewline | Whitespace | Exactly char

fun in_class :: "char_class \<Rightarrow> char \<Rightarrow> bool" where
  "in_class AnyButNewline c = (c \<noteq> CHR 0x0A)"
| "in_class Whitespace c = isspace c"
| "in_class (Exactly d) c = (c = d)"

datatype regex =
    One char_class
  | Many char_class
  | Bol
  | Eol
  | Seq regex regex
  | Alt regex regex
  | Group string regex

type_synonym position = "nat \<times> string \<times> (string \<times> string) list"

fun matches :: "regex \<Rightarrow> position \<Rightarrow> position list" where
  "matches (One k) (pos, rest, groups) =
     (case rest of
        [] \<Rightarrow> []
      | c # t \<Rightarrow> if in_class k c then [(Suc pos, t, groups)] else [])"
| "matches (Many k) (pos, rest, groups) =
     map (\<lambda>n. (pos + n, drop n rest, groups))
         (rev [0 ..< Suc (length (takeWhile (in_class k) rest))])"
| "matches Bol (pos, rest, groups) = (if pos = 0 then [(pos, rest, groups)] else [])"
| "matches Eol (pos, rest, groups) =
     (if rest = [] \<or> rest = [CHR 0x0A] then [(pos, rest, groups)] else [])"
| "matches (Seq a b) p = concat (map (matches b) (matches a p))"
| "matches (Alt a b) p = matches a p @ matches b p"
| "matches (Group name a) (pos, rest, groups) =
     map (\<lambda>(pos', rest', groups'). (pos', rest', (name, take (pos' - pos) rest) # groups'))
         (matches a (pos, rest, groups))"

definition re_match :: "regex \<Rightarrow> string \<Rightarrow> (string \<rightharpoonup> string) option" where
  "re_match r s =
     (case matches r (0, s, []) of
        [] \<Rightarrow> None
      | (pos, rest, groups) # _ \<Rightarrow> Some (map_of groups))"

fun literal :: "string \<Rightarrow> regex" where
  "literal [] = Many (Exactly (CHR 0x00))"
| "literal [c] = One (Exactly c)"
| "literal (c # cs) = Seq (One (Exactly c)) (literal cs)"

definition RE :: regex where
  "RE = Seq Bol
         (Seq (Group ''name'' (Many AnyButNewline))
         (Seq (One Whitespace)
         (Seq (One (Exactly (CHR ''('')))
         (Seq (Group ''relation''
                 (Alt (literal ''S'') (Alt (literal ''R'') (Alt (literal ''SR'') (literal ''RS'')))))
         (Seq (One (Exactly (CHR '')''))) Eol)))))"

subsection \<open>Records of a curation sheet\<close>



text \<open>
  Modelled from the spec: the module \<open>oerbservatory.model\<close> (\<open>EN\<close>, \<open>Author\<close>,
  \<open>Organization\<close>, \<open>EducationalResource\<close>) is not among the sources. The spec gives
  the shared record as title, description and keywords as language-tagged text (a
  mapping from language code to text), external URI, license, authors and
  organizations (a name with optional ORCID, or ROR and Wikidata, identifiers),
  disciplines, resource types and audience as controlled-vocabulary terms, file size,
  file formats, publication date and version, and says that constructing it enforces
  nothing. \<open>EN\<close> is the language code of English. The type of the external URI is
  left open: one source stores a list of links there, another a single DOI. The field
  \<open>keywords\<close> is written \<open>keywords'\<close>, the plain name being reserved in theory files.
\<close>

definition EN :: string where
  "EN = ''en''"

datatype author =
    Author string "string option"
  | Organization string "string option" "string option"

record 'u EducationalResource =
  reference :: "(string \<times> string) option"
  external_uri :: 'u
  title :: "(string \<times> string) list option"
  description :: "(string \<times> string option) list option"
  keywords' :: "(string \<times> string) list list option"
  authors :: "author list"
  difficulty_level :: "string list"
  languages :: "string list"
  license :: "string option"
  file_formats :: "string list"
  date_published :: "string option"
  version :: "string option"
  audience :: "string list"
  file_size :: "int option"
  resource_types :: "string list"
  media_types :: "string list"
  disciplines :: "string list"

subsection \<open>Size parsing\<close>

definition endswith :: "string \<Rightarrow> string \<Rightarrow> bool" where
  "endswith s suffix =
     (length suffix \<le> length s \<and> drop (length s - length suffix) s = suffix)"

definition removesuffix :: "string \<Rightarrow> string \<Rightarrow> string" where
  "removesuffix s suffix =
     (if endswith s suffix then take (length s - length suffix) s else s)"

text \<open>\<open>ByteSize\<close> is a subclass of \<open>int\<close>; calling it on an integer gives that integer.\<close>

definition process_size :: "string option \<Rightarrow> error + int option" where
  "process_size x =
     (case x of
        None \<Rightarrow> Inr None
      | Some s \<Rightarrow>
          if \<not> endswith s '' MB'' then Inl ValueError
          else (case float_of_str (removesuffix s '' MB'') of
                  Inl e \<Rightarrow> Inl e
                | Inr f \<Rightarrow>
                   (case py_int (float_mul f (Finite 1000000)) of
                      Inl e \<Rightarrow> Inl e
                    | Inr n \<Rightarrow> Inr (Some n))))"

subsection \<open>Converting and collecting the rows\<close>








section \<open>export/tess.py\<close>

text \<open>
  \<open>Topic\<close> and \<open>LearningMaterial\<close> are classes of \<open>tess_downloader\<close>; the record has
  the fields \<open>export_tess\<close> passes, prefixed with \<open>lm_\<close>. \<open>get_discipline_label\<close>
  belongs to \<open>dalia_dif\<close> and is a parameter. \<open>_from_dalia_dif13\<close> passes six fields
  and leaves the others at the defaults of the class, which are a parameter too.
\<close>

record Topic =
  preferred_label :: string
  uri :: string

record 'u LearningMaterial =
  lm_slug :: "string option"
  lm_title :: string
  lm_url :: 'u
  lm_description :: "string option"
  lm_keywords :: "string list option"
  lm_resource_type :: "string option"
  lm_other_types :: "string option"
  lm_scientific_topics :: "Topic list"
  lm_doi :: "string option"
  lm_license :: "string option"
  lm_contributors :: "string option"
  lm_authors :: "string option"
  lm_status :: "string option"
  lm_version :: "string option"
  lm_external_resources :: "string option"
  lm_difficulty_level :: "string option"
  lm_target_audience :: "string option"
  lm_prerequisites :: "string option"
  lm_fields :: "string option"
  lm_learning_objectives :: "string option"
  lm_date_created :: "string option"
  lm_date_modified :: "string option"
  lm_date_published :: "string option"
  lm_last_scraped :: "string option"
  lm_scraper_record :: "string option"
  lm_created_at :: "string option"
  lm_updated_at :: "string option"

text \<open>A dictionary or a list is true in a condition when it is not empty, a string
  likewise; \<open>None\<close> is false.\<close>

definition truthy :: "'a list option \<Rightarrow> bool" where
  "truthy v = (case v of None \<Rightarrow> False | Some xs \<Rightarrow> xs \<noteq> [])"

text \<open>
  \<open>export_tess\<close> reads \<open>oer.title.get(EN)\<close> twice: for the title, guarded by the
  title's own truth, and for the description, guarded by the truth of the description
  only. With a title that is \<open>None\<close> and a description that is not empty, the second
  read raises \<open>AttributeError\<close>.
\<close>

definition export_tess ::
    "(string \<Rightarrow> string) \<Rightarrow> 'u EducationalResource \<Rightarrow> error + 'u LearningMaterial option"
  where
  "export_tess get_discipline_label oer =
     (let title' = (case title oer of
                      None \<Rightarrow> None
                    | Some t \<Rightarrow> if t = [] then None else map_of t EN)
      in case (if truthy (description oer)
               then (case title oer of
                       None \<Rightarrow> Inl AttributeError
                     | Some t \<Rightarrow> Inr (map_of t EN))
               else Inr None) of
           Inl e \<Rightarrow> Inl e
         | Inr description' \<Rightarrow>
            (case title' of
               None \<Rightarrow> Inr None
             | Some title_text \<Rightarrow>
                if title_text = [] then Inr None
                else Inr (Some
           \<lparr>lm_slug = None,
            lm_title = title_text,
            lm_url = external_uri oer,
            lm_description = description',
            lm_keywords =
              (case keywords' oer of
                 None \<Rightarrow> None
               | Some ks \<Rightarrow>
                   if ks = [] then None else Some (List.map_filter (\<lambda>k. map_of k EN) ks)),
            lm_resource_type = None,
            lm_other_types = None,
            lm_scientific_topics =
              map (\<lambda>discipline. \<lparr>preferred_label = get_discipline_label discipline,
                                   uri = discipline\<rparr>)
                  (disciplines oer),
            lm_doi = None,
            lm_license = None,
            lm_contributors = None,
            lm_authors = None,
            lm_status = None,
            lm_version = None,
            lm_external_resources = None,
            lm_difficulty_level = Some ''notspecified'',
            lm_target_audience = None,
            lm_prerequisites = None,
            lm_fields = None,
            lm_learning_objectives = None,
            lm_date_created = None,
            lm_date_modified = None,
            lm_date_published = None,
            lm_last_scraped = None,
            lm_scraper_record = None,
            lm_created_at = None,
            lm_updated_at = None\<rparr>)))"


section \<open>Example values\<close>

text \<open>A resource, a record of a curation sheet, a row parser that rejects the rows
  without a \<open>Title\<close> column, a row parser that rejects no row and reads the
  description from the column \<open>Description\<close>, and a learning material with every
  optional field empty: the inputs at which the theorems below are instantiated.\<close>

definition example_resource :: "string EducationalResource" where
  "example_resource =
     \<lparr>reference = None, external_uri = ''https://example.org/course'',
      title = Some [(EN, ''A title'')],
      description = Some [(EN, Some ''A description'')],
      keywords' = None, authors = [], difficulty_level = [], languages = [],
      license = None, file_formats = [], date_published = None, version = None,
      audience = [], file_size = None, resource_types = [], media_types = [],
      disciplines = []\<rparr>"





section \<open>Properties\<close>

subsection \<open>Evaluating strings and tables\<close>

text \<open>The facts the simplifier needs to compute \<open>lower\<close> and \<open>strip\<close> on a literal,
  and the table of licenses with its keys lowered.\<close>

lemmas str_eval = lower_def lower_char_def char_of_def bit_Suc_0_iff strip_def isspace_def

lemma LICENSES_eq:
  "LICENSES =
   [(''cc-by-1.0'', SPDX_LICENSE ''CC-BY-1.0''),
    (''cc-by-2.0'', SPDX_LICENSE ''CC-BY-2.0''),
    (''cc-by-3.0'', SPDX_LICENSE ''CC-BY-3.0''),
    (''cc-by-4.0'', SPDX_LICENSE ''CC-BY-4.0''),
    (''cc-by-sa-4.0'', SPDX_LICENSE ''CC-BY-SA-4.0''),
    (''cc-by-nd-4.0'', SPDX_LICENSE ''CC-BY-ND-4.0''),
    (''cc-by-nd-2.0'', SPDX_LICENSE ''CC-BY-ND-2.0''),
    (''cc-by-nc-4.0'', SPDX_LICENSE ''CC-BY-NC-4.0''),
    (''cc-by-nc-2.0'', SPDX_LICENSE ''CC-BY-NC-2.0''),
    (''cc-by-nc-sa-3.0'', SPDX_LICENSE ''CC-BY-NC-SA-3.0''),
    (''cc-by-nc-sa-4.0'', SPDX_LICENSE ''CC-BY-NC-SA-4.0''),
    (''cc-by-nc-nd-3.0'', SPDX_LICENSE ''CC-BY-NC-ND-3.0''),
    (''cc-by-nc-nd-4.0'', SPDX_LICENSE ''CC-BY-NC-ND-4.0''),
    (''cc0-1.0'', SPDX_LICENSE ''CC0-1.0''),
    (''mit'', SPDX_LICENSE ''MIT''),
    (''gpl-2.0'', SPDX_LICENSE ''GPL-2.0''),
    (''gpl-3.0-only'', SPDX_LICENSE ''GPL-3.0-only''),
    (''gpl-3.0'', SPDX_LICENSE ''GPL-3.0-or-later''),
    (''agpl-3.0-only'', SPDX_LICENSE ''AGPL-3.0-only''),
    (''unlicense'', SPDX_LICENSE ''Unlicense''),
    (''apache-2.0'', SPDX_LICENSE ''Apache-2.0''),
    (''bsd-3-clause'', SPDX_LICENSE ''BSD-3-Clause''),
    (''artistic-2.0'', SPDX_LICENSE ''Artistic-2.0''),
    (''afl-3.0'', SPDX_LICENSE ''AFL-3.0''),
    (''odc-by-1.0'', SPDX_LICENSE ''ODC-By-1.0''),
    (''wtfpl'', SPDX_LICENSE ''WTFPL'')]"
  by (simp add: LICENSES_def lower_def lower_char_def char_of_def bit_Suc_0_iff)

lemma LICENSES_distinct: "distinct (map fst LICENSES)"
  by (simp add: LICENSES_eq)

lemma LICENSES_keys:
  "list_all (\<lambda>(k, u). k \<noteq> ''notspecified'' \<and> strip k = k \<and> lower k = k) LICENSES"
  by (simp add: LICENSES_eq str_eval)

lemma LICENSES_relabel:
  "list_all (\<lambda>(k, u). k \<noteq> ''gpl-3.0'' \<longrightarrow> strip (lower (label u)) = k) LICENSES"
  by (simp add: LICENSES_eq str_eval)

lemma LICENSES_entry:
  assumes "(k, u) \<in> set LICENSES"
  shows "map_of LICENSES k = Some u" and "k \<noteq> ''notspecified''" and "strip k = k"
    and "lower k = k" and "k \<noteq> ''gpl-3.0'' \<Longrightarrow> strip (lower (label u)) = k"
proof -
  show "map_of LICENSES k = Some u"
    using assms LICENSES_distinct by simp
  from LICENSES_keys assms show "k \<noteq> ''notspecified''" "strip k = k" "lower k = k"
    by (auto simp: list_all_iff)
  from LICENSES_relabel assms show "k \<noteq> ''gpl-3.0'' \<Longrightarrow> strip (lower (label u)) = k"
    by (auto simp: list_all_iff)
qed

lemmas tess_eval =
  get_license_def count_unknown_license_def LICENSES_eq str_eval Let_def tqdm_write_def
  initial_state_def counter_incr_def counter_get_def

subsection \<open>The license normalizer\<close>

text \<open>What \<open>_get_license\<close> does with a \<open>licence\<close> attribute that is a string, in one
  equation: \<open>t\<close> is the lowered, trimmed text.\<close>

lemma get_license_str:
  assumes "map_of a ''licence'' = Some (JStr s)"
  shows "get_license a st =
     (let t = strip (lower s) in
      if t = ''notspecified'' then (Inr None, st)
      else case map_of LICENSES t of
             Some u \<Rightarrow> (Inr (Some (Identifier u)), st)
           | None \<Rightarrow> (Inr (Some (Text t)),
                st\<lparr>license_counter := counter_incr (license_counter st) t,
                   written := written st @
                     (if t \<in> dom (license_counter st) then []
                      else [Plain (''Missing license for '' @ t)])\<rparr>))"
  using assms
  by (simp add: get_license_def count_unknown_license_def Let_def tqdm_write_def
      split: option.splits)

text \<open>
  C3, as amended. Whenever the lowered, trimmed licence is the literal
  \<open>notspecified\<close>, \<open>_get_license\<close> returns \<open>None\<close> and leaves the counters and the
  output as they are.
\<close>

theorem get_license_notspecified:
  assumes "map_of attributes ''licence'' = Some (JStr s)"
    and "strip (lower s) = ''notspecified''"
  shows "get_license attributes st = (Inr None, st)"
  using assms(2) by (simp add: get_license_str [OF assms(1)] Let_def)

text \<open>The theorem at \<open>" NotSpecified"\<close>.\<close>

theorem get_license_notspecified_witness:
  "map_of [(''licence'', JStr '' NotSpecified'')] ''licence'' = Some (JStr '' NotSpecified'') \<and>
   strip (lower '' NotSpecified'') = ''notspecified'' \<and>
   get_license [(''licence'', JStr '' NotSpecified'')] initial_state = (Inr None, initial_state)"
proof -
  have h1: "map_of [(''licence'', JStr '' NotSpecified'')] ''licence'' = Some (JStr '' NotSpecified'')"
    by simp
  have h2: "strip (lower '' NotSpecified'') = ''notspecified''"
    by (simp add: str_eval)
  from get_license_notspecified [OF h1 h2, of initial_state] h1 h2
  show ?thesis by blast
qed

text \<open>The empty licence, in the initial state: its trimmed form is empty, and the
  result is the empty string, not \<open>None\<close>; the counter holds it once; one line has
  been written.\<close>

theorem get_license_empty_counterexample:
  "strip (lower []) = [] \<and>
   fst (get_license [(''licence'', JStr '''')] initial_state) = Inr (Some (Text '''')) \<and>
   license_counter (snd (get_license [(''licence'', JStr '''')] initial_state)) '''' = Some 1 \<and>
   written (snd (get_license [(''licence'', JStr '''')] initial_state)) =
     [Plain ''Missing license for '']"
  by (simp add: tess_eval)

text \<open>
  C4, as amended. The three outcomes of \<open>_get_license\<close> on a string: a lowered, trimmed
  text that is a key of \<open>LICENSES\<close> gives the table's identifier and changes nothing;
  \<open>notspecified\<close> gives \<open>None\<close> and changes nothing; every other text, the empty one
  included, is returned as it is, its count in \<open>license_counter\<close> goes up by one, the
  other counter stays, and \<open>Missing license for ...\<close> is written exactly when the text
  was not yet a key of the counter.
\<close>

theorem get_license_three_way:
  assumes "map_of attributes ''licence'' = Some (JStr s)"
  shows "((strip (lower s), u) \<in> set LICENSES \<longrightarrow>
            get_license attributes st = (Inr (Some (Identifier u)), st)) \<and>
         (strip (lower s) = ''notspecified'' \<longrightarrow>
            get_license attributes st = (Inr None, st)) \<and>
         (strip (lower s) \<noteq> ''notspecified'' \<and> strip (lower s) \<notin> fst ` set LICENSES \<longrightarrow>
            fst (get_license attributes st) = Inr (Some (Text (strip (lower s)))) \<and>
            license_counter (snd (get_license attributes st)) =
              (license_counter st)
                (strip (lower s) \<mapsto> counter_get (license_counter st) (strip (lower s)) + 1) \<and>
            unknown_resource_type (snd (get_license attributes st)) = unknown_resource_type st \<and>
            written (snd (get_license attributes st)) =
              written st @
                (if strip (lower s) \<in> dom (license_counter st) then []
                 else [Plain (''Missing license for '' @ strip (lower s))]))"
proof (intro conjI impI)
  assume "(strip (lower s), u) \<in> set LICENSES"
  from LICENSES_entry(1,2) [OF this]
  show "get_license attributes st = (Inr (Some (Identifier u)), st)"
    by (simp add: get_license_str [OF assms] Let_def)
next
  assume "strip (lower s) = ''notspecified''"
  then show "get_license attributes st = (Inr None, st)"
    by (simp add: get_license_str [OF assms] Let_def)
next
  assume a: "strip (lower s) \<noteq> ''notspecified'' \<and> strip (lower s) \<notin> fst ` set LICENSES"
  then have n: "map_of LICENSES (strip (lower s)) = None"
    by (simp add: map_of_eq_None_iff)
  from a n show "fst (get_license attributes st) = Inr (Some (Text (strip (lower s))))"
    by (simp add: get_license_str [OF assms] Let_def)
  from a n show "license_counter (snd (get_license attributes st)) =
      (license_counter st)
        (strip (lower s) \<mapsto> counter_get (license_counter st) (strip (lower s)) + 1)"
    by (simp add: get_license_str [OF assms] Let_def counter_incr_def)
  from a n show "unknown_resource_type (snd (get_license attributes st)) = unknown_resource_type st"
    by (simp add: get_license_str [OF assms] Let_def)
  from a n show "written (snd (get_license attributes st)) =
      written st @
        (if strip (lower s) \<in> dom (license_counter st) then []
         else [Plain (''Missing license for '' @ strip (lower s))])"
    by (simp add: get_license_str [OF assms] Let_def)
qed

text \<open>The theorem at \<open>"Apache-2.0 "\<close> (known), \<open>"NOTSPECIFIED"\<close> (absent) and
  \<open>"Proprietary"\<close> (unknown), each from the initial state.\<close>

theorem get_license_three_way_witness:
  "(strip (lower ''Apache-2.0 ''), SPDX_LICENSE ''Apache-2.0'') \<in> set LICENSES \<and>
   get_license [(''licence'', JStr ''Apache-2.0 '')] initial_state =
     (Inr (Some (Identifier (SPDX_LICENSE ''Apache-2.0''))), initial_state) \<and>
   strip (lower ''NOTSPECIFIED'') = ''notspecified'' \<and>
   get_license [(''licence'', JStr ''NOTSPECIFIED'')] initial_state = (Inr None, initial_state) \<and>
   strip (lower ''Proprietary'') \<noteq> ''notspecified'' \<and>
   strip (lower ''Proprietary'') \<notin> fst ` set LICENSES \<and>
   fst (get_license [(''licence'', JStr ''Proprietary'')] initial_state) =
     Inr (Some (Text ''proprietary'')) \<and>
   license_counter (snd (get_license [(''licence'', JStr ''Proprietary'')] initial_state))
     ''proprietary'' = Some 1 \<and>
   written (snd (get_license [(''licence'', JStr ''Proprietary'')] initial_state)) =
     [Plain ''Missing license for proprietary'']"
proof -
  have a1: "map_of [(''licence'', JStr ''Apache-2.0 '')] ''licence'' = Some (JStr ''Apache-2.0 '')"
    and a2: "map_of [(''licence'', JStr ''NOTSPECIFIED'')] ''licence'' = Some (JStr ''NOTSPECIFIED'')"
    and a3: "map_of [(''licence'', JStr ''Proprietary'')] ''licence'' = Some (JStr ''Proprietary'')"
    by simp_all
  have e1: "strip (lower ''Apache-2.0 '') = ''apache-2.0''"
    and e2: "strip (lower ''NOTSPECIFIED'') = ''notspecified''"
    and e3: "strip (lower ''Proprietary'') = ''proprietary''"
    by (simp_all add: str_eval)
  have h1: "(strip (lower ''Apache-2.0 ''), SPDX_LICENSE ''Apache-2.0'') \<in> set LICENSES"
    unfolding e1 by (simp add: LICENSES_eq)
  have h3: "strip (lower ''Proprietary'') \<noteq> ''notspecified'' \<and>
      strip (lower ''Proprietary'') \<notin> fst ` set LICENSES"
    unfolding e3 by (simp add: LICENSES_eq)
  from get_license_three_way [OF a1, of "SPDX_LICENSE ''Apache-2.0''" initial_state] h1
  have c1: "get_license [(''licence'', JStr ''Apache-2.0 '')] initial_state =
      (Inr (Some (Identifier (SPDX_LICENSE ''Apache-2.0''))), initial_state)"
    by blast
  from get_license_three_way [OF a2, of "SPDX_LICENSE []" initial_state] e2
  have c2: "get_license [(''licence'', JStr ''NOTSPECIFIED'')] initial_state =
      (Inr None, initial_state)"
    by blast
  from get_license_three_way [OF a3, of "SPDX_LICENSE []" initial_state] h3
  have c3: "fst (get_license [(''licence'', JStr ''Proprietary'')] initial_state) =
        Inr (Some (Text ''proprietary'')) \<and>
      license_counter (snd (get_license [(''licence'', JStr ''Proprietary'')] initial_state))
        ''proprietary'' = Some 1 \<and>
      written (snd (get_license [(''licence'', JStr ''Proprietary'')] initial_state)) =
        [Plain ''Missing license for proprietary'']"
    unfolding e3 by (simp add: initial_state_def counter_get_def)
  from h1 c1 e2 c2 h3 c3 show ?thesis by blast
qed

text \<open>A licence of two blanks, in the initial state: its trimmed form is empty, yet the
  result is not \<open>None\<close> but the empty string, and the counter has recorded it.\<close>

theorem get_license_blank_counterexample:
  "strip (lower ''  '') = [] \<and>
   fst (get_license [(''licence'', JStr ''  '')] initial_state) \<noteq> Inr None \<and>
   fst (get_license [(''licence'', JStr ''  '')] initial_state) = Inr (Some (Text '''')) \<and>
   counter_get (license_counter (snd (get_license [(''licence'', JStr ''  '')] initial_state))) ''''
     = 1"
  by (simp add: tess_eval)

text \<open>
  C5, as amended. For every entry of \<open>LICENSES\<close>, with key \<open>k\<close> and identifier \<open>u\<close>:
  every string that lowers to \<open>k\<close> (every casing of the key) is normalized to \<open>u\<close>,
  and nothing is counted or written. Normalizing the label of \<open>u\<close> gives \<open>u\<close> again for
  every entry but \<open>gpl-3.0\<close>, whose identifier is labelled \<open>GPL-3.0-or-later\<close>, a
  string the table does not hold.
\<close>

theorem get_license_case_insensitive:
  assumes "(k, u) \<in> set LICENSES"
  shows "(\<forall>attributes s. map_of attributes ''licence'' = Some (JStr s) \<and> lower s = k \<longrightarrow>
            get_license attributes st = (Inr (Some (Identifier u)), st)) \<and>
         (k \<noteq> ''gpl-3.0'' \<longrightarrow>
            (\<forall>attributes. map_of attributes ''licence'' = Some (JStr (label u)) \<longrightarrow>
               get_license attributes st = (Inr (Some (Identifier u)), st)))"
proof (intro conjI allI impI)
  fix attributes s
  assume a: "map_of attributes ''licence'' = Some (JStr s) \<and> lower s = k"
  with LICENSES_entry(1,2,3) [OF assms]
  show "get_license attributes st = (Inr (Some (Identifier u)), st)"
    by (simp add: get_license_str [of attributes s] Let_def)
next
  fix attributes
  assume n: "k \<noteq> ''gpl-3.0''"
    and a: "map_of attributes ''licence'' = Some (JStr (label u))"
  from LICENSES_entry(5) [OF assms n] LICENSES_entry(1,2) [OF assms]
  show "get_license attributes st = (Inr (Some (Identifier u)), st)"
    by (simp add: get_license_str [OF a] Let_def)
qed

text \<open>The theorem at the entry \<open>mit\<close>: \<open>"MIT"\<close> and \<open>"mit"\<close> give the same identifier,
  and so does the identifier's label.\<close>

theorem get_license_case_insensitive_witness:
  "(''mit'', SPDX_LICENSE ''MIT'') \<in> set LICENSES \<and>
   lower ''MIT'' = ''mit'' \<and> lower ''mit'' = ''mit'' \<and> ''mit'' \<noteq> ''gpl-3.0'' \<and>
   get_license [(''licence'', JStr ''MIT'')] initial_state =
     (Inr (Some (Identifier (SPDX_LICENSE ''MIT''))), initial_state) \<and>
   get_license [(''licence'', JStr ''mit'')] initial_state =
     (Inr (Some (Identifier (SPDX_LICENSE ''MIT''))), initial_state) \<and>
   get_license [(''licence'', JStr (label (SPDX_LICENSE ''MIT'')))] initial_state =
     (Inr (Some (Identifier (SPDX_LICENSE ''MIT''))), initial_state)"
proof -
  have h: "(''mit'', SPDX_LICENSE ''MIT'') \<in> set LICENSES"
    by (simp add: LICENSES_eq)
  have l1: "lower ''MIT'' = ''mit''" and l2: "lower ''mit'' = ''mit''"
    by (simp_all add: str_eval)
  have n: "''mit'' \<noteq> ''gpl-3.0''"
    by simp
  have m1: "map_of [(''licence'', JStr ''MIT'')] ''licence'' = Some (JStr ''MIT'')"
    and m2: "map_of [(''licence'', JStr ''mit'')] ''licence'' = Some (JStr ''mit'')"
    and m3: "map_of [(''licence'', JStr (label (SPDX_LICENSE ''MIT'')))] ''licence'' =
      Some (JStr (label (SPDX_LICENSE ''MIT'')))"
    by simp_all
  note t = get_license_case_insensitive [OF h, of initial_state]
  from t m1 l1 have c1: "get_license [(''licence'', JStr ''MIT'')] initial_state =
      (Inr (Some (Identifier (SPDX_LICENSE ''MIT''))), initial_state)"
    by blast
  from t m2 l2 have c2: "get_license [(''licence'', JStr ''mit'')] initial_state =
      (Inr (Some (Identifier (SPDX_LICENSE ''MIT''))), initial_state)"
    by blast
  from t n m3 have c3:
    "get_license [(''licence'', JStr (label (SPDX_LICENSE ''MIT'')))] initial_state =
      (Inr (Some (Identifier (SPDX_LICENSE ''MIT''))), initial_state)"
    by blast
  from h l1 l2 n c1 c2 c3 show ?thesis by blast
qed

text \<open>The entry \<open>gpl-3.0\<close>: the key is normalized to the identifier
  \<open>GPL-3.0-or-later\<close>, and that identifier's label comes back as a plain string.\<close>

theorem get_license_relabel_counterexample:
  "(''gpl-3.0'', SPDX_LICENSE ''GPL-3.0-or-later'') \<in> set LICENSES \<and>
   fst (get_license [(''licence'', JStr ''gpl-3.0'')] initial_state) =
     Inr (Some (Identifier (SPDX_LICENSE ''GPL-3.0-or-later''))) \<and>
   fst (get_license [(''licence'', JStr (label (SPDX_LICENSE ''GPL-3.0-or-later'')))]
          initial_state) =
     Inr (Some (Text ''gpl-3.0-or-later''))"
  by (simp add: tess_eval)

text \<open>
  C10. A \<open>licence\<close> attribute that is \<open>None\<close> makes \<open>_get_license\<close> raise
  \<open>AttributeError\<close> (from \<open>.lower()\<close>), with the state untouched; and whenever
  \<open>_get_license\<close> returns \<open>None\<close>, the attribute was a string whose lowered, trimmed
  form is \<open>notspecified\<close>: the test \<open>license_text is None\<close> never decides the outcome.
\<close>

theorem get_license_none_raises:
  "(map_of attributes ''licence'' = Some JNull \<longrightarrow>
      get_license attributes st = (Inl AttributeError, st)) \<and>
   (fst (get_license attributes st) = Inr None \<longrightarrow>
      (\<exists>s. map_of attributes ''licence'' = Some (JStr s) \<and>
           strip (lower s) = ''notspecified''))"
proof (intro conjI impI)
  assume "map_of attributes ''licence'' = Some JNull"
  then show "get_license attributes st = (Inl AttributeError, st)"
    by (simp add: get_license_def)
next
  assume r: "fst (get_license attributes st) = Inr None"
  show "\<exists>s. map_of attributes ''licence'' = Some (JStr s) \<and> strip (lower s) = ''notspecified''"
  proof (cases "map_of attributes ''licence''")
    case None
    with r show ?thesis by (simp add: get_license_def)
  next
    case (Some v)
    with r show ?thesis
      by (cases v) (auto simp: get_license_def Let_def split: option.splits if_splits)
  qed
qed

text \<open>The theorem at the attributes \<open>{"licence": None}\<close> and
  \<open>{"licence": "NotSpecified"}\<close>.\<close>

theorem get_license_none_raises_witness:
  "map_of [(''licence'', JNull)] ''licence'' = Some JNull \<and>
   get_license [(''licence'', JNull)] initial_state = (Inl AttributeError, initial_state) \<and>
   fst (get_license [(''licence'', JStr ''NotSpecified'')] initial_state) = Inr None \<and>
   (\<exists>s. map_of [(''licence'', JStr ''NotSpecified'')] ''licence'' = Some (JStr s) \<and>
        strip (lower s) = ''notspecified'')"
proof -
  have h1: "map_of [(''licence'', JNull)] ''licence'' = Some JNull"
    by simp
  have h2: "fst (get_license [(''licence'', JStr ''NotSpecified'')] initial_state) = Inr None"
    by (simp add: tess_eval)
  from h1 h2
    get_license_none_raises [of "[(''licence'', JNull)]" initial_state]
    get_license_none_raises [of "[(''licence'', JStr ''NotSpecified'')]" initial_state]
  show ?thesis by blast
qed

subsection \<open>The resource-type mapper and the counters\<close>

lemma resource_type_body_str:
  "resource_type_body (JStr l) (rv, st) =
     (case dict_get RESOURCE_TYPE_MAP (strip (lower l)) of
        Some nn \<Rightarrow> (Inr (rv @ [nn]), st)
      | None \<Rightarrow> (Inr rv, count_unknown_resource_type (strip (lower l)) st))"
  by (simp add: resource_type_body_def)

lemma resource_type_loop_strs:
  "resource_type_loop (map JStr ls) (rv, st) =
     (Inr (rv @ List.map_filter (\<lambda>l. dict_get RESOURCE_TYPE_MAP (strip (lower l))) ls),
      foldl record_unknown st (unknowns_of (ResourceTypes ls)))"
proof (induction ls arbitrary: rv st)
  case Nil
  then show ?case by (simp add: List.map_filter_simps)
next
  case (Cons l ls)
  show ?case
  proof (cases "dict_get RESOURCE_TYPE_MAP (strip (lower l))")
    case None
    then show ?thesis
      using Cons.IH [of rv "count_unknown_resource_type (strip (lower l)) st"]
      by (simp add: resource_type_body_str List.map_filter_simps)
  next
    case (Some nn)
    then show ?thesis
      using Cons.IH [of "rv @ [nn]" st]
      by (simp add: resource_type_body_str List.map_filter_simps)
  qed
qed

lemma get_resource_types_strs:
  "get_resource_types [(''resource-type'', JList (map JStr ls))] st =
     (Inr (List.map_filter (\<lambda>l. dict_get RESOURCE_TYPE_MAP (strip (lower l))) ls),
      foldl record_unknown st (unknowns_of (ResourceTypes ls)))"
  using resource_type_loop_strs [of ls "[]" st]
  by (simp add: get_resource_types_def)

lemma perform_unknowns: "perform st c = foldl record_unknown st (unknowns_of c)"
proof (cases c)
  case (Licence s)
  show ?thesis
  proof (cases "strip (lower s) = ''notspecified''")
    case True
    then show ?thesis
      using Licence by (simp add: get_license_str [of _ s] Let_def)
  next
    case False
    show ?thesis
    proof (cases "map_of LICENSES (strip (lower s))")
      case None
      then have "strip (lower s) \<notin> fst ` set LICENSES"
        by (simp add: map_of_eq_None_iff)
      with None False Licence show ?thesis
        by (simp add: get_license_def)
    next
      case (Some u)
      then have "strip (lower s) \<in> fst ` set LICENSES"
        by (metis map_of_eq_None_iff option.distinct(1))
      with Some False Licence show ?thesis
        by (simp add: get_license_def)
    qed
  qed
next
  case (ResourceTypes ls)
  then show ?thesis
    by (simp add: get_resource_types_strs del: unknowns_of.simps)
qed

lemma foldl_perform: "foldl perform st cs = foldl record_unknown st (unknowns cs)"
  by (induction cs arbitrary: st) (simp_all add: unknowns_def perform_unknowns)

lemma first_occurrences_snoc:
  "first_occurrences (xs @ [x]) =
     (if x \<in> set xs then first_occurrences xs else first_occurrences xs @ [x])"
  by (simp add: first_occurrences_def)

lemma distinct_first_occurrences: "distinct (first_occurrences xs)"
  by (simp add: first_occurrences_def)

lemma set_first_occurrences: "set (first_occurrences xs) = set xs"
  by (simp add: first_occurrences_def)

lemma record_unknown_all:
  "written (foldl record_unknown initial_state es) = map diagnostic (first_occurrences es) \<and>
   unknown_resource_type (foldl record_unknown initial_state es) =
     (\<lambda>t. if UnknownType t \<in> set es then Some (int (count_list es (UnknownType t))) else None) \<and>
   license_counter (foldl record_unknown initial_state es) =
     (\<lambda>t. if UnknownLicense t \<in> set es then Some (int (count_list es (UnknownLicense t)))
          else None)"
proof (induction es rule: rev_induct)
  case Nil
  then show ?case
    by (simp add: initial_state_def first_occurrences_def)
next
  case (snoc e es)
  show ?case
  proof (cases e)
    case (UnknownType t)
    with snoc show ?thesis
      by (auto simp: count_unknown_resource_type_def counter_get_def counter_incr_def
          tqdm_write_def Let_def first_occurrences_snoc fun_eq_iff count_list_0_iff)
  next
    case (UnknownLicense t)
    with snoc show ?thesis
      by (auto simp: count_unknown_license_def counter_get_def counter_incr_def
          tqdm_write_def Let_def first_occurrences_snoc fun_eq_iff dom_def)
  qed
qed

text \<open>Different values have different diagnostics.\<close>

lemma inj_diagnostic: "inj diagnostic"
proof (rule injI)
  fix x y
  assume "diagnostic x = diagnostic y"
  then show "x = y"
    by (cases x; cases y) simp_all
qed

lemma count_list_distinct:
  "distinct xs \<Longrightarrow> count_list xs x = (if x \<in> set xs then 1 else 0)"
  by (induction xs) auto

text \<open>
  C6. Take any sequence of calls of the two mappers from the initial state. What has
  been written is exactly the diagnostics of the unknown values in the order of their
  first occurrences: a value's line is written when the value occurs for the first
  time and never again, so it is there exactly once if the value has occurred and not
  at all otherwise. Each counter holds, for every value, the number of its
  occurrences. (Since this holds for every sequence, it holds after every prefix of a
  run.) The unknown resource types are the labels the table gives no identifier for,
  the labels absent from the table among them.
\<close>

theorem unknown_reported_once:
  "written (run calls) = map diagnostic (first_occurrences (unknowns calls)) \<and>
   (\<forall>v. count_list (written (run calls)) (diagnostic v) =
          (if v \<in> set (unknowns calls) then 1 else 0)) \<and>
   (\<forall>t. counter_get (unknown_resource_type (run calls)) t =
          int (count_list (unknowns calls) (UnknownType t))) \<and>
   (\<forall>t. counter_get (license_counter (run calls)) t =
          int (count_list (unknowns calls) (UnknownLicense t)))"
proof -
  have r: "run calls = foldl record_unknown initial_state (unknowns calls)"
    by (simp add: run_def foldl_perform)
  note a = record_unknown_all [of "unknowns calls", folded r]
  have w: "written (run calls) = map diagnostic (first_occurrences (unknowns calls))"
    using a by blast
  have c: "count_list (written (run calls)) (diagnostic v) =
      (if v \<in> set (unknowns calls) then 1 else 0)" for v
  proof -
    have "count_list (map diagnostic (first_occurrences (unknowns calls))) (diagnostic v) =
        count_list (first_occurrences (unknowns calls)) v"
      using inj_diagnostic by (rule count_list_map_conv)
    also have "\<dots> = (if v \<in> set (unknowns calls) then 1 else 0)"
      using distinct_first_occurrences [of "unknowns calls"]
        set_first_occurrences [of "unknowns calls"]
      by (simp add: count_list_distinct)
    finally show ?thesis using w by simp
  qed
  have u: "counter_get (unknown_resource_type (run calls)) t =
      int (count_list (unknowns calls) (UnknownType t))" for t
    using a by (simp add: counter_get_def count_list_0_iff)
  have l: "counter_get (license_counter (run calls)) t =
      int (count_list (unknowns calls) (UnknownLicense t))" for t
    using a by (simp add: counter_get_def count_list_0_iff)
  from w c u l show ?thesis by blast
qed

text \<open>A run in which the unknown type \<open>foo\<close> occurs three times, in two calls, and
  the unknown licence \<open>x\<close> twice.\<close>

theorem unknown_reported_once_witness:
  "unknowns [ResourceTypes [''Foo'', ''foo '', ''video''], Licence ''X'', Licence ''x'',
             ResourceTypes [''FOO'']] =
     [UnknownType ''foo'', UnknownType ''foo'', UnknownLicense ''x'', UnknownLicense ''x'',
      UnknownType ''foo''] \<and>
   written (run [ResourceTypes [''Foo'', ''foo '', ''video''], Licence ''X'', Licence ''x'',
                 ResourceTypes [''FOO'']]) =
     [Red ([CHR 0x22] @ ''foo'' @ [CHR 0x22] @ '': None,''), Plain ''Missing license for x''] \<and>
   counter_get (unknown_resource_type
     (run [ResourceTypes [''Foo'', ''foo '', ''video''], Licence ''X'', Licence ''x'',
           ResourceTypes [''FOO'']])) ''foo'' = 3 \<and>
   counter_get (license_counter
     (run [ResourceTypes [''Foo'', ''foo '', ''video''], Licence ''X'', Licence ''x'',
           ResourceTypes [''FOO'']])) ''x'' = 2"
proof -
  have u: "unknowns [ResourceTypes [''Foo'', ''foo '', ''video''], Licence ''X'', Licence ''x'',
             ResourceTypes [''FOO'']] =
     [UnknownType ''foo'', UnknownType ''foo'', UnknownLicense ''x'', UnknownLicense ''x'',
      UnknownType ''foo'']"
    by (simp add: unknowns_def str_eval LICENSES_eq RESOURCE_TYPE_MAP_def dict_get_def)
  from unknown_reported_once [of "[ResourceTypes [''Foo'', ''foo '', ''video''], Licence ''X'',
      Licence ''x'', ResourceTypes [''FOO'']]"]
  show ?thesis
    unfolding u by (simp add: first_occurrences_def)
qed

subsection \<open>Labels the table maps to None\<close>

text \<open>A label stored with \<open>None\<close> is looked up with \<open>get\<close> and tested for truth, as a
  label that is absent: it takes the unknown path.\<close>

lemma null_mapped_takes_unknown_path:
  assumes "map_of RESOURCE_TYPE_MAP (strip (lower l)) = Some None"
  shows "get_resource_types [(''resource-type'', JList [JStr l])] st =
           (Inr [], count_unknown_resource_type (strip (lower l)) st)"
  using assms
  by (simp add: get_resource_types_def resource_type_body_def dict_get_def)

text \<open>
  C1. The table maps \<open>blog post\<close> to \<open>None\<close>. In the initial state
  \<open>_get_resource_types\<close> leaves the label out of the returned list, but it also
  writes the line \<open>"blog post": None,\<close> and sets the label's entry of
  \<open>unknown_resource_type\<close> to 1: the mapper does not tell a label stored with
  \<open>None\<close> from a label that is not in the table.
\<close>

theorem get_resource_types_null_mapped:
  "map_of RESOURCE_TYPE_MAP ''blog post'' = Some None \<and>
   get_resource_types [(''resource-type'', JList [JStr ''Blog post''])] initial_state =
     (Inr [],
      \<lparr>unknown_resource_type = [''blog post'' \<mapsto> 1], license_counter = Map.empty,
       written = [Red ([CHR 0x22] @ ''blog post'' @ [CHR 0x22] @ '': None,'')]\<rparr>)"
proof -
  have l: "strip (lower ''Blog post'') = ''blog post''"
    by (simp add: str_eval)
  have m: "map_of RESOURCE_TYPE_MAP ''blog post'' = Some None"
    by (simp add: RESOURCE_TYPE_MAP_def)
  from null_mapped_takes_unknown_path [of "''Blog post''" initial_state] l m
  show ?thesis
    by (simp add: count_unknown_resource_type_def initial_state_def tqdm_write_def
        counter_get_def counter_incr_def)
qed

subsection \<open>Size parsing\<close>

lemma endswith_append: "endswith (t @ suffix) suffix"
  by (simp add: endswith_def)

lemma removesuffix_append: "removesuffix (t @ suffix) suffix = t"
  by (simp add: removesuffix_def endswith_def)

text \<open>The number \<open>0.01171875\<close> is \<open>3 / 256\<close>, a double; so is its product with
  1000000, \<open>11718.75\<close>: no rounding takes place.\<close>

lemma float_of_str_example: "float_of_str ''0.01171875'' = Inr (Finite (3 / 256))"
proof -
  have u: "drop_underscores (CHR 0x00) ''0.01171875'' = Some ''0.01171875''"
    by (simp add: is_digit_def)
  have p: "parse_decimal ''0.01171875'' = Some (3 / 256)"
    by (simp add: parse_decimal_def is_digit_def digits_value_def Let_def)
  have l: "floor_log2 (3 / 256) = - 7"
    by code_simp
  have d: "to_double (3 / 256) = Finite (3 / 256)"
    by (simp add: to_double_def Let_def l power_int_minus round_half_even_def)
  show ?thesis
    by (simp add: float_of_str_def float_space_def u p d split_sign_def lower_def)
qed

lemma to_double_example: "to_double (46875 / 4) = Finite (46875 / 4)"
proof -
  have l: "floor_log2 (46875 / 4) = 13"
    by code_simp
  show ?thesis
    by (simp add: to_double_def Let_def l power_int_minus round_half_even_def)
qed

lemma float_mul_example: "float_mul (Finite (3 / 256)) (Finite 1000000) = Finite (46875 / 4)"
  using to_double_example by simp

lemma floor_example: "\<lfloor>46875 / 4 :: rat\<rfloor> = 11718"
  by code_simp

lemma round_example: "round_half_even (46875 / 4) = 11719"
  by code_simp

text \<open>
  C2, as amended. For a string \<open>t MB\<close> whose prefix \<open>t\<close> parses to a finite float
  with a finite product \<open>p\<close> with 1000000, \<open>_process_size\<close> returns \<open>int(p)\<close>: \<open>p\<close>
  with its fraction cut off, towards zero, not rounded. For every string that does not
  end in \<open>" MB"\<close> it raises \<open>ValueError\<close>.
\<close>

theorem process_size_truncates:
  "(float_of_str t = Inr (Finite q) \<and> float_mul (Finite q) (Finite 1000000) = Finite p \<longrightarrow>
      process_size (Some (t @ '' MB'')) = Inr (Some (if 0 \<le> p then \<lfloor>p\<rfloor> else \<lceil>p\<rceil>))) \<and>
   (\<not> endswith x '' MB'' \<longrightarrow> process_size (Some x) = Inl ValueError)"
  by (simp add: process_size_def endswith_append removesuffix_append)

text \<open>The theorem at \<open>"0.01171875 MB"\<close> and at \<open>"2 GB"\<close>.\<close>

theorem process_size_truncates_witness:
  "float_of_str ''0.01171875'' = Inr (Finite (3 / 256)) \<and>
   float_mul (Finite (3 / 256)) (Finite 1000000) = Finite (46875 / 4) \<and>
   process_size (Some ''0.01171875 MB'') = Inr (Some 11718) \<and>
   \<not> endswith ''2 GB'' '' MB'' \<and>
   process_size (Some ''2 GB'') = Inl ValueError"
proof -
  have e: "\<not> endswith ''2 GB'' '' MB''"
    by (simp add: endswith_def)
  from process_size_truncates [of "''0.01171875''" "3 / 256" "46875 / 4" "''2 GB''"]
    float_of_str_example float_mul_example e
  have "process_size (Some (''0.01171875'' @ '' MB'')) = Inr (Some \<lfloor>46875 / 4 :: rat\<rfloor>)"
    and "process_size (Some ''2 GB'') = Inl ValueError"
    by simp_all
  with float_of_str_example float_mul_example e show ?thesis
    by (simp add: floor_example)
qed

text \<open>\<open>"0.01171875 MB"\<close> is 11718.75 bytes: \<open>round\<close> gives 11719, the function
  returns 11718.\<close>

theorem process_size_round_counterexample:
  "float_of_str ''0.01171875'' = Inr (Finite (3 / 256)) \<and>
   py_round (float_mul (Finite (3 / 256)) (Finite 1000000)) = Inr 11719 \<and>
   process_size (Some ''0.01171875 MB'') = Inr (Some 11718)"
proof -
  have "process_size (Some (''0.01171875'' @ '' MB'')) = Inr (Some 11718)"
    by (simp add: process_size_def endswith_append removesuffix_append
        float_of_str_example to_double_example floor_example del: append.simps)
  then show ?thesis
    by (simp add: float_of_str_example to_double_example round_example)
qed

subsection \<open>The relation-marker pattern\<close>

text \<open>The matches of the pattern are computed from the inside out: the alternatives
  of the marker, the group around them, the closing parenthesis and the end, the
  white space and the opening parenthesis before them, and last the greedy name.\<close>

lemma set_matches_Seq: "set (matches (Seq a b) p) = (\<Union>q\<in>set (matches a p). set (matches b q))"
  by simp

lemma matches_markers:
  "set (matches (Alt (literal ''S'') (Alt (literal ''R'') (Alt (literal ''SR'') (literal ''RS''))))
          (pos, rest, g)) =
     {(pos + length m, t, g) | m t. m \<in> {''S'', ''R'', ''SR'', ''RS''} \<and> rest = m @ t}"
  by (auto split: list.splits)

lemma matches_relation:
  "set (matches (Group ''relation''
          (Alt (literal ''S'') (Alt (literal ''R'') (Alt (literal ''SR'') (literal ''RS'')))))
          (pos, rest, g)) =
     {(pos + length m, t, (''relation'', m) # g) | m t.
        m \<in> {''S'', ''R'', ''SR'', ''RS''} \<and> rest = m @ t}"
  unfolding matches.simps(7) set_map matches_markers
  by (auto simp: image_iff)

lemma matches_close:
  "set (matches (Seq (One (Exactly (CHR '')''))) Eol) q) =
     (case q of (pos, rest, g) \<Rightarrow>
        {(Suc pos, e, g) | e. rest = CHR '')'' # e \<and> (e = [] \<or> e = [CHR 0x0A])})"
  by (cases q) (auto split: list.splits)

lemma matches_relation_close:
  "set (matches
         (Seq (Group ''relation''
                 (Alt (literal ''S'') (Alt (literal ''R'') (Alt (literal ''SR'') (literal ''RS'')))))
              (Seq (One (Exactly (CHR '')''))) Eol))
         (p, r, g)) =
      {(p + length m + 1, e, (''relation'', m) # g) | m e.
         r = m @ CHR '')'' # e \<and> m \<in> {''S'', ''R'', ''SR'', ''RS''} \<and>
         (e = [] \<or> e = [CHR 0x0A])}"
  apply (subst set_matches_Seq)
  apply (simp only: matches_relation matches_close)
  apply auto
  done

lemma set_matches_Seq_One:
  "set (matches (Seq (One k) b) (pos, rest, g)) =
     (case rest of
        [] \<Rightarrow> {}
      | c # t \<Rightarrow> if in_class k c then set (matches b (Suc pos, t, g)) else {})"
  by (simp split: list.splits)

lemma matches_tail:
  "set (matches
         (Seq (One Whitespace)
         (Seq (One (Exactly (CHR ''('')))
         (Seq (Group ''relation''
                 (Alt (literal ''S'') (Alt (literal ''R'') (Alt (literal ''SR'') (literal ''RS'')))))
         (Seq (One (Exactly (CHR '')''))) Eol))))
         (pos, rest, g)) =
     {(pos + 3 + length m, e, (''relation'', m) # g) | w m e.
        rest = w # CHR ''('' # m @ CHR '')'' # e \<and> isspace w \<and>
        m \<in> {''S'', ''R'', ''SR'', ''RS''} \<and> (e = [] \<or> e = [CHR 0x0A])}"
  apply (simp only: set_matches_Seq_One matches_relation_close)
  apply (auto split: list.splits)
  done

lemma le_length_takeWhile:
  "n \<le> length (takeWhile P xs) \<longleftrightarrow> n \<le> length xs \<and> (\<forall>c\<in>set (take n xs). P c)"
proof (induction xs arbitrary: n)
  case Nil
  then show ?case by simp
next
  case (Cons x xs)
  then show ?case by (cases n) auto
qed

lemma matches_name:
  "set (matches (Group ''name'' (Many AnyButNewline)) (0, s, [])) =
     {(length a, t, [(''name'', a)]) | a t. s = a @ t \<and> CHR 0x0A \<notin> set a}"
proof -
  have "set (matches (Group ''name'' (Many AnyButNewline)) (0, s, [])) =
      {(n, drop n s, [(''name'', take n s)]) | n.
         n \<le> length (takeWhile (in_class AnyButNewline) s)}"
    by (auto simp: image_iff less_Suc_eq_le)
  also have "\<dots> = {(length a, t, [(''name'', a)]) | a t. s = a @ t \<and> CHR 0x0A \<notin> set a}"
  proof (intro set_eqI iffI; clarify)
    fix n
    assume "n \<le> length (takeWhile (in_class AnyButNewline) s)"
    then have "n \<le> length s" and "CHR 0x0A \<notin> set (take n s)"
      by (auto simp: le_length_takeWhile)
    then show "\<exists>a t. (n, drop n s, [(''name'', take n s)]) = (length a, t, [(''name'', a)]) \<and>
        s = a @ t \<and> CHR 0x0A \<notin> set a"
      by (intro exI [of _ "take n s"] exI [of _ "drop n s"]) simp
  next
    fix a t
    assume "CHR 0x0A \<notin> set a"
    then have "length a \<le> length (takeWhile (in_class AnyButNewline) (a @ t))"
      by (auto simp: le_length_takeWhile)
    then show "\<exists>n. (length a, t, [(''name'', a)]) =
          (n, drop n (a @ t), [(''name'', take n (a @ t))]) \<and>
        n \<le> length (takeWhile (in_class AnyButNewline) (a @ t))"
      by (intro exI [of _ "length a"]) simp
  qed
  finally show ?thesis .
qed

lemma matches_Seq_Bol: "matches (Seq Bol b) (0, s, g) = matches b (0, s, g)"
  by simp

lemma set_matches_RE:
  "set (matches RE (0, s, [])) =
     {(length a + 3 + length m, e, [(''relation'', m), (''name'', a)]) | a w m e.
        s = a @ w # CHR ''('' # m @ CHR '')'' # e \<and> CHR 0x0A \<notin> set a \<and> isspace w \<and>
        m \<in> {''S'', ''R'', ''SR'', ''RS''} \<and> (e = [] \<or> e = [CHR 0x0A])}"
proof -
  let ?tail = "Seq (One Whitespace)
         (Seq (One (Exactly (CHR ''('')))
         (Seq (Group ''relation''
                 (Alt (literal ''S'') (Alt (literal ''R'') (Alt (literal ''SR'') (literal ''RS'')))))
         (Seq (One (Exactly (CHR '')''))) Eol)))"
  have "set (matches RE (0, s, [])) =
      (\<Union>q\<in>set (matches (Group ''name'' (Many AnyButNewline)) (0, s, [])). set (matches ?tail q))"
    unfolding RE_def by (subst matches_Seq_Bol, subst set_matches_Seq) (rule refl)
  also have "\<dots> = (\<Union>(a, t)\<in>{(a, t). s = a @ t \<and> CHR 0x0A \<notin> set a}.
      set (matches ?tail (length a, t, [(''name'', a)])))"
    unfolding matches_name by (auto simp del: matches.simps literal.simps)
  finally show ?thesis
    unfolding matches_tail by (auto simp del: matches.simps literal.simps)
qed

text \<open>A string ends in a marker in at most one way.\<close>

lemma marker_unique:
  assumes "a @ w # CHR ''('' # m @ CHR '')'' # e = a' @ w' # CHR ''('' # m' @ CHR '')'' # e'"
    and "m \<in> {''S'', ''R'', ''SR'', ''RS''}" and "m' \<in> {''S'', ''R'', ''SR'', ''RS''}"
    and "e = [] \<or> e = [CHR 0x0A]" and "e' = [] \<or> e' = [CHR 0x0A]"
  shows "a = a' \<and> m = m'"
proof -
  from assms(1)
  have "rev (a @ w # CHR ''('' # m @ CHR '')'' # e) = rev (a' @ w' # CHR ''('' # m' @ CHR '')'' # e')"
    by (rule arg_cong)
  then have "rev e @ CHR '')'' # rev m @ CHR ''('' # w # rev a =
      rev e' @ CHR '')'' # rev m' @ CHR ''('' # w' # rev a'"
    by simp
  with assms(2-5) show ?thesis
    by auto
qed

lemma isspace_blank: "isspace (CHR '' '')"
  by (simp add: isspace_def)

lemma re_match_None:
  "re_match RE s = None \<longleftrightarrow> set (matches RE (0, s, [])) = {}"
  by (simp add: re_match_def split: list.splits prod.splits)

text \<open>
  C7, as amended. For every name without a line feed and every marker \<open>S\<close>, \<open>R\<close>,
  \<open>SR\<close> or \<open>RS\<close>, the pattern \<open>RE\<close> matches \<open>"name (marker)"\<close>; the group \<open>name\<close> is
  the text before the blank and the parenthesis, the group \<open>relation\<close> is the marker,
  and there is no other group. The pattern matches no string but those that consist of
  a name without a line feed, one white-space character, a marker in parentheses and,
  possibly, one final line feed: for every other string there is no match, hence no
  marker and no changed name.
\<close>

theorem relation_marker_pattern:
  "(CHR 0x0A \<notin> set n \<and> m \<in> {''S'', ''R'', ''SR'', ''RS''} \<longrightarrow>
      re_match RE (n @ '' ('' @ m @ '')'') = Some [''name'' \<mapsto> n, ''relation'' \<mapsto> m]) \<and>
   (re_match RE s = None \<longleftrightarrow>
      \<not> (\<exists>a w k e. s = a @ [w] @ ''('' @ k @ '')'' @ e \<and> CHR 0x0A \<notin> set a \<and> isspace w \<and>
             k \<in> {''S'', ''R'', ''SR'', ''RS''} \<and> (e = [] \<or> e = [CHR 0x0A])))"
proof (intro conjI impI)
  assume a: "CHR 0x0A \<notin> set n \<and> m \<in> {''S'', ''R'', ''SR'', ''RS''}"
  let ?s = "n @ '' ('' @ m @ '')''"
  have s: "?s = n @ CHR '' '' # CHR ''('' # m @ CHR '')'' # []"
    by simp
  from a isspace_blank
  have "(length n + 3 + length m, [], [(''relation'', m), (''name'', n)])
      \<in> set (matches RE (0, ?s, []))"
    unfolding set_matches_RE s by blast
  then obtain x xs where x: "matches RE (0, ?s, []) = x # xs"
    by (cases "matches RE (0, ?s, [])") auto
  then have "x \<in> set (matches RE (0, ?s, []))"
    by simp
  then obtain a' w' m' e' where d: "x = (length a' + 3 + length m', e', [(''relation'', m'), (''name'', a')])"
      "?s = a' @ w' # CHR ''('' # m' @ CHR '')'' # e'"
      "m' \<in> {''S'', ''R'', ''SR'', ''RS''}" "e' = [] \<or> e' = [CHR 0x0A]"
    unfolding set_matches_RE by blast
  from marker_unique [of n "CHR '' ''" m "[]" a' w' m' e'] d(2,3,4) a s
  have "n = a' \<and> m = m'"
    by simp
  with x d(1) show "re_match RE ?s = Some [''name'' \<mapsto> n, ''relation'' \<mapsto> m]"
    by (simp add: re_match_def)
next
  show "re_match RE s = None \<longleftrightarrow>
      \<not> (\<exists>a w k e. s = a @ [w] @ ''('' @ k @ '')'' @ e \<and> CHR 0x0A \<notin> set a \<and> isspace w \<and>
             k \<in> {''S'', ''R'', ''SR'', ''RS''} \<and> (e = [] \<or> e = [CHR 0x0A]))"
    unfolding re_match_None set_matches_RE by (simp; blast)
qed

text \<open>The theorem at \<open>"Uni Bonn (SR)"\<close> and at \<open>"Uni Bonn"\<close>.\<close>

theorem relation_marker_pattern_witness:
  "CHR 0x0A \<notin> set ''Uni Bonn'' \<and> ''SR'' \<in> {''S'', ''R'', ''SR'', ''RS''} \<and>
   re_match RE ''Uni Bonn (SR)'' = Some [''name'' \<mapsto> ''Uni Bonn'', ''relation'' \<mapsto> ''SR''] \<and>
   re_match RE ''Uni Bonn'' = None"
proof -
  have h: "CHR 0x0A \<notin> set ''Uni Bonn'' \<and> ''SR'' \<in> {''S'', ''R'', ''SR'', ''RS''}"
    by simp
  have n: "\<not> (\<exists>a w k e. ''Uni Bonn'' = a @ [w] @ ''('' @ k @ '')'' @ e \<and> CHR 0x0A \<notin> set a \<and>
      isspace w \<and> k \<in> {''S'', ''R'', ''SR'', ''RS''} \<and> (e = [] \<or> e = [CHR 0x0A]))"
  proof
    assume "\<exists>a w k e. ''Uni Bonn'' = a @ [w] @ ''('' @ k @ '')'' @ e \<and> CHR 0x0A \<notin> set a \<and>
      isspace w \<and> k \<in> {''S'', ''R'', ''SR'', ''RS''} \<and> (e = [] \<or> e = [CHR 0x0A])"
    then obtain a w k e where "''Uni Bonn'' = a @ [w] @ ''('' @ k @ '')'' @ e"
      and "e = [] \<or> e = [CHR 0x0A]"
      by blast
    then have "rev ''Uni Bonn'' = rev e @ CHR '')'' # rev k @ CHR ''('' # w # rev a"
      by simp
    with \<open>e = [] \<or> e = [CHR 0x0A]\<close> show False
      by auto
  qed
  from relation_marker_pattern [of "''Uni Bonn''" "''SR''" "''Uni Bonn''"] h n
  show ?thesis by simp
qed

text \<open>A name of two lines followed by \<open>(S)\<close>: the pattern does not match, since \<open>.\<close>
  does not match a line feed and \<open>^\<close> holds only at the start of the string.\<close>

theorem relation_marker_newline_counterexample:
  "re_match RE (''Uni'' @ [CHR 0x0A] @ ''Bonn (S)'') = None"
  by (simp add: re_match_def RE_def isspace_def)

subsection \<open>Export to TeSS\<close>

text \<open>
  C9. For every resource whose title has a non-empty English text, \<open>export_tess\<close>
  returns a learning material with that text as its title, and the description of the
  material is the same English title text whenever the resource has a non-empty
  description (the description's own text is not used), and \<open>None\<close> when the
  resource has no description.
\<close>

theorem export_tess_description_is_title:
  assumes "title oer = Some t" and "map_of t EN = Some en_title" and "en_title \<noteq> []"
  shows "\<exists>lm. export_tess get_discipline_label oer = Inr (Some lm) \<and>
              lm_title lm = en_title \<and>
              lm_description lm = (if truthy (description oer) then Some en_title else None)"
proof -
  from assms(2) have "t \<noteq> []"
    by auto
  with assms show ?thesis
    by (simp add: export_tess_def truthy_def Let_def)
qed

text \<open>The theorem at a resource titled \<open>A title\<close> and described as
  \<open>A description\<close>, and at the same resource with its description removed.\<close>

theorem export_tess_description_is_title_witness:
  "title example_resource = Some [(EN, ''A title'')] \<and>
   map_of [(EN, ''A title'')] EN = Some ''A title'' \<and> ''A title'' \<noteq> [] \<and>
   truthy (description example_resource) \<and>
   (\<exists>lm. export_tess (\<lambda>d. d) example_resource = Inr (Some lm) \<and>
         lm_title lm = ''A title'' \<and> lm_description lm = Some ''A title'') \<and>
   \<not> truthy (description (example_resource\<lparr>description := None\<rparr>)) \<and>
   (\<exists>lm. export_tess (\<lambda>d. d) (example_resource\<lparr>description := None\<rparr>) = Inr (Some lm) \<and>
         lm_title lm = ''A title'' \<and> lm_description lm = None)"
proof -
  have h1: "title example_resource = Some [(EN, ''A title'')]"
    and h1': "title (example_resource\<lparr>description := None\<rparr>) = Some [(EN, ''A title'')]"
    and h2: "map_of [(EN, ''A title'')] EN = Some ''A title''"
    and h3: "''A title'' \<noteq> []"
    and d1: "truthy (description example_resource)"
    and d2: "\<not> truthy (description (example_resource\<lparr>description := None\<rparr>))"
    by (simp_all add: example_resource_def truthy_def)
  from export_tess_description_is_title [OF h1 h2 h3, of "\<lambda>d. d"] d1
    export_tess_description_is_title [OF h1' h2 h3, of "\<lambda>d. d"] d2
    h1 h2 h3
  show ?thesis by simp
qed

subsection \<open>Records without a description\<close>








end
